theory Spec2Isabelle
  imports Complex_Main "HOL-Library.Multiset"
begin

section \<open>Data model of \<open>Pages/3_STL_and_Spectrogram.py\<close>\<close>

text \<open>
  A pandas/NumPy float is modelled as \<open>real option\<close>: \<open>None\<close> is the missing value
  (NaN), \<open>Some x\<close> a number, with the reals in the place of doubles (rounding, overflow
  and infinities are not modelled). Python's unbounded integers are \<open>int\<close>.
\<close>

type_synonym float = "real option"

text \<open>
  One document of the collection after \<open>load_production_data\<close>: the two categorical
  columns, the parsed start time (as a number of time units; \<open>pd.to_datetime\<close> raises on
  a malformed time, so the column holds no missing time) and the quantity, which may
  be missing.
\<close>

record row =
  priceArea :: string
  productionGroup :: string
  startTime_parsed :: int
  quantityKwh :: float

type_synonym dataframe = "row list"

subsection \<open>External primitives\<close>

text \<open>
  \<open>statsmodels.tsa.seasonal.STL\<close>, \<open>scipy.signal.spectrogram\<close> and the NumPy functions
  are libraries outside the repository. They are parameters of the model. A primitive
  that can raise returns \<open>Inl\<close> of the exception's text.

  The module binds \<open>STL\<close> (and \<open>signal\<close>) to the imported object and sets
  \<open>_STL_AVAILABLE\<close> (\<open>_SCIPY_AVAILABLE\<close>) to \<open>True\<close>, or binds it to \<open>None\<close> and sets the
  flag to \<open>False\<close>: an optional primitive carries both, the flag being \<open>\<noteq> None\<close>.
\<close>

record stl_result =
  trend :: "float list"
  seasonal :: "float list"
  resid :: "float list"

text \<open>\<open>STL(ts, period=, seasonal=, trend=, robust=).fit()\<close>; \<open>ts\<close> is the time-indexed series.\<close>

type_synonym stl_primitive =
  "(int \<times> float) list \<Rightarrow> int \<Rightarrow> int \<Rightarrow> int option \<Rightarrow> bool \<Rightarrow> string + stl_result"

text \<open>
  \<open>signal.spectrogram(production, fs=1.0, window='hann', nperseg=, noverlap=)\<close>, returning
  \<open>(frequencies, times, Sxx)\<close>. A two-dimensional array \<open>Sxx[f, t]\<close> is modelled as the
  list of its columns \<open>Sxx[:, t]\<close>.
\<close>

type_synonym spectrogram_primitive =
  "float list \<Rightarrow> int \<Rightarrow> int \<Rightarrow> string + (float list \<times> float list \<times> float list list)"

record numpy =
  rfftfreq :: "int \<Rightarrow> float list"
  hanning :: "int \<Rightarrow> float list"
  rfft :: "float list \<Rightarrow> complex option list"

text \<open>
  \<open>filtered.sort_values('startTime_parsed')\<close> is pandas' sort: it returns the rows in
  ascending order of start time. Its default algorithm is not stable, so the order
  among rows of equal start time is pandas' choice; the sort is a parameter
  \<open>sort_values\<close> of the analysis functions, and this is all that is known of it.
\<close>

definition sorts_by_start_time :: "(dataframe \<Rightarrow> dataframe) \<Rightarrow> bool" where
  "sorts_by_start_time sort_values =
     (\<forall>df. mset (sort_values df) = mset df \<and> sorted (map startTime_parsed (sort_values df)))"

subsection \<open>Figures and outcomes\<close>

text \<open>
  A Matplotlib figure is modelled by the data drawn on it. Both analysis functions
  return the pair \<open>(fig, error)\<close>, one component being \<open>None\<close>; an exception that leaves
  the function is \<open>Inl\<close>.
\<close>

datatype figure =
  STL_figure string "int list" "float list" "float list" "float list" "float list"
| Spectrogram_figure "string \<times> string \<times> int \<times> int" "float list" "float list" "float list list"

type_synonym outcome = "string + (figure option \<times> string option)"

section \<open>The selector stage\<close>

text \<open>\<open>df[(df['priceArea'] == price_area) & (df['productionGroup'] == production_group)]\<close>\<close>

definition filter_rows :: "dataframe \<Rightarrow> string \<Rightarrow> string \<Rightarrow> dataframe" where
  "filter_rows df price_area production_group =
     filter (\<lambda>r. priceArea r = price_area \<and> productionGroup r = production_group) df"

text \<open>
  \<open>Series.ffill()\<close>: a missing value takes the last valid value before it; \<open>carry\<close> is
  that value, \<open>None\<close> while there has been none.
\<close>

fun ffill_from :: "'a option \<Rightarrow> 'a option list \<Rightarrow> 'a option list" where
  "ffill_from carry [] = []"
| "ffill_from carry (None # xs) = carry # ffill_from carry xs"
| "ffill_from carry (Some v # xs) = Some v # ffill_from (Some v) xs"

definition ffill :: "'a option list \<Rightarrow> 'a option list" where
  "ffill xs = ffill_from None xs"

text \<open>\<open>Series.bfill()\<close>: a missing value takes the next valid value after it.\<close>

fun bfill :: "'a option list \<Rightarrow> 'a option list" where
  "bfill [] = []"
| "bfill (Some v # xs) = Some v # bfill xs"
| "bfill (None # xs) = (case bfill xs of [] \<Rightarrow> [None] | y # ys \<Rightarrow> y # y # ys)"

text \<open>\<open>.ffill().bfill()\<close>, as both analysis functions apply it to the quantities.\<close>

definition gap_fill :: "float list \<Rightarrow> float list" where
  "gap_fill values = bfill (ffill values)"

section \<open>\<open>stl_analysis\<close>\<close>

definition stl_unavailable_message :: string where
  "stl_unavailable_message =
     ''STL decomposition is unavailable because statsmodels could not be imported; '' @
     ''please install statsmodels in your environment (e.g. pip install statsmodels)''"

definition no_data_message :: string where
  "no_data_message = ''No data available for selected combination''"

definition stl_analysis ::
  "stl_primitive option \<Rightarrow> (dataframe \<Rightarrow> dataframe) \<Rightarrow> dataframe \<Rightarrow> string \<Rightarrow> string \<Rightarrow> int \<Rightarrow> int
     \<Rightarrow> int option \<Rightarrow> bool \<Rightarrow> outcome" where
  "stl_analysis STL sort_values df price_area production_group period seasonal_arg trend_arg
     robust =
     (case STL of
        None \<Rightarrow> Inr (None, Some stl_unavailable_message)
      | Some STL_fit \<Rightarrow>
          (let filtered = filter_rows df price_area production_group in
           if length filtered = 0 then Inr (None, Some no_data_message)
           else
             (let filtered = sort_values filtered;
                  index = map startTime_parsed filtered;
                  ts = zip index (gap_fill (map quantityKwh filtered))
              in case STL_fit ts period seasonal_arg trend_arg robust of
                   Inl exn \<Rightarrow> Inl exn
                 | Inr result \<Rightarrow>
                     Inr (Some (STL_figure
                                  (''STL Decomposition: '' @ production_group @ '' in '' @ price_area)
                                  index (map snd ts) (trend result) (seasonal result) (resid result)),
                          None))))"

text \<open>
  The STL tab of the page script, once the button is pressed (lines 245-261). The
  seasonal window is the value of
  \<open>st.slider("Seasonal Smoothing", min_value=3, max_value=25, value=7, step=2)\<close>, one of
  the twelve stops 3, 5, ..., 25; \<open>k\<close> is the number of the stop. The guard of lines
  249-251 adds one to an even value. \<open>stl_analysis\<close> is then called with the primitive's own
  default trend (\<open>None\<close>), and the page shows the error or the figure. The \<open>try\<close> around
  the page shows any exception (lines 291-294).
\<close>

datatype shown = St_error string | St_pyplot "figure option" | St_exception string

fun page_display :: "outcome \<Rightarrow> shown" where
  "page_display (Inl exn) = St_exception (''An error occurred: '' @ exn)"
| "page_display (Inr (fig, None)) = St_pyplot fig"
| "page_display (Inr (fig, Some error)) = (if error \<noteq> [] then St_error error else St_pyplot fig)"

definition stl_seasonal_slider :: "nat \<Rightarrow> int" where
  "stl_seasonal_slider k = 3 + 2 * int (min k 11)"

definition stl_seasonal_guard :: "int \<Rightarrow> int" where
  "stl_seasonal_guard stl_seasonal =
     (if stl_seasonal mod 2 = 0 then stl_seasonal + 1 else stl_seasonal)"

definition stl_tab ::
  "stl_primitive option \<Rightarrow> (dataframe \<Rightarrow> dataframe) \<Rightarrow> dataframe \<Rightarrow> string \<Rightarrow> string \<Rightarrow> int \<Rightarrow> nat
     \<Rightarrow> bool \<Rightarrow> shown" where
  "stl_tab STL sort_values df stl_price_area stl_prod_group stl_period k stl_robust =
     (let stl_seasonal = stl_seasonal_slider k;
          stl_seasonal = stl_seasonal_guard stl_seasonal
      in page_display
           (stl_analysis STL sort_values df stl_price_area stl_prod_group stl_period
              stl_seasonal None stl_robust))"

section \<open>\<open>spectrogram_analysis\<close>\<close>

subsection \<open>Float arithmetic\<close>

text \<open>
  Arithmetic on floats: a missing operand gives a missing result. Infinities are not
  modelled, so a division by zero and the logarithm of zero are given as missing; the
  code below divides by \<open>win_norm + 1e-16\<close> only.
\<close>

definition fl_mul :: "float \<Rightarrow> float \<Rightarrow> float" where
  "fl_mul a b = (case (a, b) of (Some x, Some y) \<Rightarrow> Some (x * y) | _ \<Rightarrow> None)"

definition fl_add :: "float \<Rightarrow> float \<Rightarrow> float" where
  "fl_add a b = (case (a, b) of (Some x, Some y) \<Rightarrow> Some (x + y) | _ \<Rightarrow> None)"

definition fl_sub :: "float \<Rightarrow> float \<Rightarrow> float" where
  "fl_sub a b = (case (a, b) of (Some x, Some y) \<Rightarrow> Some (x - y) | _ \<Rightarrow> None)"

definition fl_div :: "float \<Rightarrow> float \<Rightarrow> float" where
  "fl_div a b =
     (case (a, b) of (Some x, Some y) \<Rightarrow> (if y = 0 then None else Some (x / y)) | _ \<Rightarrow> None)"

definition fl_sum :: "float list \<Rightarrow> float" where
  "fl_sum xs = foldl fl_add (Some 0) xs"

text \<open>\<open>10 * np.log10(p + 1e-10)\<close>\<close>

definition to_db :: "float \<Rightarrow> float" where
  "to_db p =
     (case p of
        None \<Rightarrow> None
      | Some x \<Rightarrow> (if 0 < x + 1 / 10 ^ 10 then Some (10 * log 10 (x + 1 / 10 ^ 10)) else None))"

subsection \<open>Slices\<close>

text \<open>
  Python's \<open>xs[lo:hi]\<close>: a negative bound counts from the end, and both bounds are
  clipped to the sequence.
\<close>

definition py_slice :: "'a list \<Rightarrow> int \<Rightarrow> int \<Rightarrow> 'a list" where
  "py_slice xs lo hi =
     (let n = int (length xs);
          a = (if lo < 0 then max 0 (n + lo) else min lo n);
          b = (if hi < 0 then max 0 (n + hi) else min hi n)
      in take (nat (b - a)) (drop (nat a) xs))"

subsection \<open>The NumPy fallback\<close>

text \<open>
  Python's \<open>a // b\<close> on integers rounds down, and raises for \<open>b = 0\<close>. A Python integer
  that is multiplied into a NumPy \<open>int64\<close> array must fit 64 bits: NumPy raises
  \<open>OverflowError\<close> otherwise.
\<close>

definition py_floordiv :: "int \<Rightarrow> int \<Rightarrow> string + int" where
  "py_floordiv a b =
     (if b = 0 then Inl ''ZeroDivisionError: integer division or modulo by zero''
      else Inr (a div b))"

definition int64_max :: int where
  "int64_max = 2 ^ 63 - 1"

text \<open>\<open>step = max(1, nperseg - noverlap)\<close>\<close>

definition step_size :: "int \<Rightarrow> int \<Rightarrow> int" where
  "step_size nperseg noverlap = max 1 (nperseg - noverlap)"

text \<open>
  The value of \<open>segments = max(0, (n - noverlap + step - 1) // step)\<close> where the
  division is defined, that is for \<open>step \<noteq> 0\<close>.
\<close>

definition segment_count :: "int \<Rightarrow> int \<Rightarrow> int \<Rightarrow> int" where
  "segment_count n nperseg noverlap =
     (let step = step_size nperseg noverlap
      in max 0 ((n - noverlap + step - 1) div step))"

text \<open>
  Lines 195-198: the samples of segment \<open>i\<close>, padded on the right with zeros
  (\<open>np.pad(seg, (0, nperseg - len(seg)), 'constant')\<close>) when the slice is short.
\<close>

definition segment :: "float list \<Rightarrow> int \<Rightarrow> int \<Rightarrow> int \<Rightarrow> float list" where
  "segment production nperseg step i =
     (let start = i * step;
          seg = py_slice production start (start + nperseg)
      in if int (length seg) < nperseg
         then seg @ replicate (nat (nperseg - int (length seg))) (Some 0)
         else seg)"

text \<open>
  Lines 199-200: the column \<open>Sxx[:, i]\<close>, that is
  \<open>np.abs(np.fft.rfft(seg * window)) ** 2 / (win_norm + 1e-16)\<close>.
\<close>

definition stft_column :: "numpy \<Rightarrow> float list \<Rightarrow> float \<Rightarrow> float list \<Rightarrow> float list" where
  "stft_column np window win_norm seg =
     (let fft = rfft np (map2 fl_mul seg window)
      in map (\<lambda>z. fl_div (map_option (\<lambda>c. (cmod c)\<^sup>2) z) (fl_add win_norm (Some (1 / 10 ^ 16))))
           fft)"

text \<open>
  The loop \<open>for i in range(segments)\<close>, from the index \<open>i\<close> on. \<open>Sxx\<close> holds the columns
  written so far (the source allocates the array with \<open>np.empty\<close> and writes column
  \<open>i\<close> in iteration \<open>i\<close>). The result is the index at which the loop stops, and
  \<open>Sxx\<close>.
\<close>

function stft_loop ::
  "numpy \<Rightarrow> float list \<Rightarrow> int \<Rightarrow> int \<Rightarrow> float list \<Rightarrow> float \<Rightarrow> int \<Rightarrow> int \<Rightarrow> float list list
     \<Rightarrow> int \<times> float list list" where
  "stft_loop np production nperseg step window win_norm segments i Sxx =
     (if i < segments
      then stft_loop np production nperseg step window win_norm segments (i + 1)
             (Sxx @ [stft_column np window win_norm (segment production nperseg step i)])
      else (i, Sxx))"
  by pat_completeness auto
termination
  by (relation "measure (\<lambda>(np, production, nperseg, step, window, win_norm, segments, i, Sxx).
                           nat (segments - i))") auto

definition invalid_window_message :: string where
  "invalid_window_message = ''Invalid window settings for spectrogram''"

definition not_enough_data_message :: string where
  "not_enough_data_message = ''Not enough data for selected window/overlap settings''"

text \<open>
  The \<open>else\<close> branch (lines 177-200) ends in one of three ways: an exception leaves it,
  it returns early with \<open>None, message\<close>, or it computes \<open>(frequencies, times, Sxx)\<close>.
  In line 190 \<open>np.arange(segments) * step\<close> raises when \<open>step\<close> does not fit 64 bits;
  the products \<open>i * step\<close> are below \<open>n + step\<close> and do not wrap for a series that
  fits in memory. Running out of memory for a huge window is not modelled.
\<close>

datatype stft_result =
  Raises string
| Returns_message string
| Returns_arrays "float list" "float list" "float list list"

definition stft_fallback :: "numpy \<Rightarrow> float list \<Rightarrow> int \<Rightarrow> int \<Rightarrow> stft_result" where
  "stft_fallback np production window_length window_overlap =
     (let n = int (length production);
          nperseg = window_length;
          noverlap = window_overlap;
          step = step_size nperseg noverlap
      in if n < 1 \<or> nperseg \<le> 0 then Returns_message invalid_window_message
         else
           (case py_floordiv (n - noverlap + step - 1) step of
              Inl exn \<Rightarrow> Raises exn
            | Inr q \<Rightarrow>
                (let segments = max 0 q
                 in if segments \<le> 0 then Returns_message not_enough_data_message
                    else if int64_max < step
                    then Raises ''OverflowError: Python integer out of bounds for int64''
                    else
                      (let frequencies = rfftfreq np nperseg;
                           times_arr = map (\<lambda>i. Some (real_of_int (i * step))) [0..segments - 1];
                           window = hanning np nperseg;
                           win_norm = fl_sum (map (\<lambda>w. fl_mul w w) window);
                           Sxx = snd (stft_loop np production nperseg step window win_norm
                                        segments 0 [])
                       in Returns_arrays frequencies times_arr Sxx))))"

text \<open>Lines 203-212: the power in decibels, and the figure.\<close>

definition spectrogram_figure ::
  "string \<Rightarrow> string \<Rightarrow> int \<Rightarrow> int \<Rightarrow> float list \<Rightarrow> float list \<Rightarrow> float list list \<Rightarrow> figure" where
  "spectrogram_figure price_area production_group window_length window_overlap
     frequencies times_arr Sxx =
     (let Sxx_db = map (map to_db) Sxx
      in Spectrogram_figure (production_group, price_area, window_length, window_overlap)
           times_arr frequencies Sxx_db)"

definition spectrogram_analysis ::
  "spectrogram_primitive option \<Rightarrow> numpy \<Rightarrow> (dataframe \<Rightarrow> dataframe) \<Rightarrow> dataframe \<Rightarrow> string
     \<Rightarrow> string \<Rightarrow> int \<Rightarrow> int \<Rightarrow> outcome" where
  "spectrogram_analysis signal np sort_values df price_area production_group window_length
     window_overlap =
     (let filtered = filter_rows df price_area production_group in
      if length filtered = 0 then Inr (None, Some no_data_message)
      else
        (let filtered = sort_values filtered;
             production = gap_fill (map quantityKwh filtered)
         in case signal of
              Some spectrogram \<Rightarrow>
                (case spectrogram production window_length window_overlap of
                   Inl exn \<Rightarrow> Inl exn
                 | Inr (frequencies, times_arr, Sxx) \<Rightarrow>
                     Inr (Some (spectrogram_figure price_area production_group
                                  window_length window_overlap frequencies times_arr Sxx),
                          None))
            | None \<Rightarrow>
                (case stft_fallback np production window_length window_overlap of
                   Raises exn \<Rightarrow> Inl exn
                 | Returns_message message \<Rightarrow> Inr (None, Some message)
                 | Returns_arrays frequencies times_arr Sxx \<Rightarrow>
                     Inr (Some (spectrogram_figure price_area production_group
                                  window_length window_overlap frequencies times_arr Sxx),
                          None))))"

text \<open>What an outcome shows: the figure, and the time bins and columns of a spectrogram.\<close>

fun figure_of :: "outcome \<Rightarrow> figure option" where
  "figure_of (Inr (fig, error)) = fig"
| "figure_of (Inl exn) = None"

fun time_bins :: "outcome \<Rightarrow> float list" where
  "time_bins (Inr (Some (Spectrogram_figure title times_arr frequencies Sxx_db), error)) = times_arr"
| "time_bins other = []"

fun power_columns :: "outcome \<Rightarrow> float list list" where
  "power_columns (Inr (Some (Spectrogram_figure title times_arr frequencies Sxx_db), error)) = Sxx_db"
| "power_columns other = []"

section \<open>Instances for closed examples\<close>

text \<open>
  The theorems below hold for every instance of the external primitives, unless they
  name one. A closed example needs instances. For NumPy: the functions after their
  documented formulas, over the reals (\<open>hanning(M)[n] = 0.5 - 0.5 cos(2 pi n / (M - 1))\<close>,
  \<open>rfftfreq(n)[k] = k / n\<close> and \<open>rfft(a)[k] = sum_m a[m] exp(-2 pi i m k / n)\<close> for
  \<open>k = 0, ..., n // 2\<close>, a missing sample making every bin missing).
\<close>

definition np_hanning :: "int \<Rightarrow> float list" where
  "np_hanning M =
     (if M < 1 then []
      else if M = 1 then [Some 1]
      else map (\<lambda>n. Some (1 / 2 - 1 / 2 * cos (2 * pi * real_of_int n / real_of_int (M - 1))))
             [0..M - 1])"

definition np_rfftfreq :: "int \<Rightarrow> float list" where
  "np_rfftfreq n = map (\<lambda>k. Some (real_of_int k / real_of_int n)) [0..n div 2]"

definition np_rfft :: "float list \<Rightarrow> complex option list" where
  "np_rfft a =
     (let n = length a
      in if None \<in> set a then replicate (n div 2 + 1) None
         else map (\<lambda>k. Some (\<Sum>m<n. complex_of_real (the (a ! m))
                                        * cis (- 2 * pi * real m * real k / real n)))
                [0..<n div 2 + 1])"

definition np_reference :: numpy where
  "np_reference = \<lparr>rfftfreq = np_rfftfreq, hanning = np_hanning, rfft = np_rfft\<rparr>"

text \<open>
  For SciPy: \<open>signal.spectrogram(x, fs=1.0, window='hann', nperseg, noverlap)\<close> after its
  documentation, for a non-empty \<open>x\<close>. A window longer than the input is shortened to
  the input; a window below 1 and an overlap not below the window raise \<open>ValueError\<close>.
  The segments are the \<open>(n - noverlap) // (nperseg - noverlap)\<close> full windows, none is
  padded; each has its mean removed, is multiplied by the periodic Hann window and
  transformed; the power is scaled by \<open>1 / sum(window ** 2)\<close> and doubled at the
  frequencies that stand for two. The time of a segment is its centre,
  \<open>nperseg / 2 + i * (nperseg - noverlap)\<close>.
\<close>

definition scipy_hann :: "int \<Rightarrow> float list" where
  "scipy_hann M =
     (if M \<le> 1 then replicate (nat M) (Some 1)
      else map (\<lambda>n. Some (1 / 2 - 1 / 2 * cos (2 * pi * real_of_int n / real_of_int M)))
             [0..M - 1])"

definition scipy_detrend :: "float list \<Rightarrow> float list" where
  "scipy_detrend seg =
     (let mean = fl_div (fl_sum seg) (Some (real (length seg)))
      in map (\<lambda>v. fl_sub v mean) seg)"

definition scipy_column :: "float list \<Rightarrow> float list \<Rightarrow> float list" where
  "scipy_column win seg =
     (let nfft = length seg;
          fft = np_rfft (map2 fl_mul (scipy_detrend seg) win);
          scale = fl_div (Some 1) (fl_sum (map (\<lambda>w. fl_mul w w) win));
          psd = map (\<lambda>z. fl_mul (map_option (\<lambda>c. (cmod c)\<^sup>2) z) scale) fft
      in map (\<lambda>k. if 1 \<le> k \<and> (odd nfft \<or> k < length psd - 1)
                   then fl_mul (Some 2) (psd ! k) else psd ! k)
           [0..<length psd])"

definition scipy_spectrogram :: spectrogram_primitive where
  "scipy_spectrogram x nperseg noverlap =
     (let n = int (length x);
          nperseg = (if n < nperseg then n else nperseg)
      in if nperseg < 0 then Inl ''ValueError: Window length M must be a non-negative integer''
         else if nperseg < 1 then Inl ''ValueError: nperseg must be a positive integer''
         else if nperseg \<le> noverlap then Inl ''ValueError: noverlap must be less than nperseg.''
         else
           (let nstep = nperseg - noverlap;
                segments = (n - noverlap) div nstep;
                win = scipy_hann nperseg
            in Inr (np_rfftfreq nperseg,
                    map (\<lambda>i. Some (real_of_int nperseg / 2 + real_of_int (i * nstep)))
                      [0..segments - 1],
                    map (\<lambda>i. scipy_column win (take (nat nperseg) (drop (nat (i * nstep)) x)))
                      [0..segments - 1])))"

text \<open>For pandas' sort: the stable sort by start time.\<close>

definition stable_sort_values :: "dataframe \<Rightarrow> dataframe" where
  "stable_sort_values df = sort_key startTime_parsed df"

text \<open>
  A stand-in for statsmodels' STL: it enforces the requirement that the page script
  and the docstring of \<open>stl_analysis\<close> name (the seasonal window must be odd) by
  raising, and returns a trivial additive decomposition otherwise.
\<close>

definition STL_requiring_odd :: stl_primitive where
  "STL_requiring_odd ts period seasonal_arg trend_arg robust =
     (if seasonal_arg mod 2 = 0 \<or> seasonal_arg < 3
      then Inl ''ValueError: seasonal must be an odd positive integer >= 3''
      else Inr \<lparr>trend = map snd ts,
                seasonal = map (\<lambda>_. Some 0) ts,
                resid = map (\<lambda>_. Some 0) ts\<rparr>)"

text \<open>
  A dataset of four rows: three hours of hydro production in NO1, stored out of
  order and with the middle hour missing, and one row of another series.
\<close>

definition example_df :: dataframe where
  "example_df =
     [\<lparr>priceArea = ''NO1'', productionGroup = ''hydro'', startTime_parsed = 2, quantityKwh = None\<rparr>,
      \<lparr>priceArea = ''NO2'', productionGroup = ''wind'', startTime_parsed = 1, quantityKwh = Some 9\<rparr>,
      \<lparr>priceArea = ''NO1'', productionGroup = ''hydro'', startTime_parsed = 3, quantityKwh = Some 7\<rparr>,
      \<lparr>priceArea = ''NO1'', productionGroup = ''hydro'', startTime_parsed = 1, quantityKwh = Some 5\<rparr>]"

text \<open>
  A series of eleven samples without gaps, and the dataset of the first \<open>m\<close> hours of
  such a series.
\<close>

definition example_series :: "float list" where
  "example_series =
     [Some 0, Some 1, Some 2, Some 3, Some 4, Some 5, Some 6, Some 7, Some 8, Some 9, Some 10]"

definition hourly_df :: "int \<Rightarrow> dataframe" where
  "hourly_df m =
     map (\<lambda>t. \<lparr>priceArea = ''NO1'', productionGroup = ''hydro'', startTime_parsed = t,
                quantityKwh = Some (real_of_int t)\<rparr>)
       [0..m - 1]"

section \<open>Lemmas\<close>

subsection \<open>Filling gaps\<close>

lemma length_ffill_from: "length (ffill_from carry xs) = length xs"
  by (induction carry xs rule: ffill_from.induct) simp_all

lemma length_bfill: "length (bfill xs) = length xs"
  by (induction xs rule: bfill.induct) (auto split: list.splits)









lemma length_gap_fill: "length (gap_fill xs) = length xs"
  by (simp add: gap_fill_def ffill_def length_bfill length_ffill_from)

subsection \<open>Integer arithmetic of the segment count\<close>

lemma ceil_div:
  fixes a d :: int
  assumes d: "0 < d"
  shows "(a + d - 1) div d = \<lceil>real_of_int a / real_of_int d\<rceil>"
proof -
  define z where "z = (a + d - 1) div d"
  have eq: "z * d + (a + d - 1) mod d = a + d - 1"
    unfolding z_def by simp
  have lo: "0 \<le> (a + d - 1) mod d" and hi: "(a + d - 1) mod d < d"
    using d by simp_all
  have 1: "a \<le> z * d" using eq hi by linarith
  have 2: "z * d < a + d" using eq lo by linarith
  have "real_of_int a \<le> real_of_int (z * d)"
    using 1 by (simp only: of_int_le_iff)
  then have up: "real_of_int a / real_of_int d \<le> real_of_int z"
    using d by (simp add: pos_divide_le_eq)
  have "real_of_int (z * d) < real_of_int (a + d)"
    using 2 by (simp only: of_int_less_iff)
  then have "(real_of_int z - 1) * real_of_int d < real_of_int a"
    by (simp add: algebra_simps)
  then have down: "real_of_int z - 1 < real_of_int a / real_of_int d"
    using d by (simp add: pos_less_divide_eq)
  have "\<lceil>real_of_int a / real_of_int d\<rceil> = z"
    using up down by (intro ceiling_unique) simp_all
  then show ?thesis by (simp add: z_def)
qed

lemma le_div_mult:
  fixes k a s :: int
  assumes "0 < s" "k \<le> a div s"
  shows "k * s \<le> a"
proof -
  have "k * s \<le> (a div s) * s" using assms by (intro mult_right_mono) simp_all
  moreover have "(a div s) * s + a mod s = a" by simp
  moreover have "0 \<le> a mod s" using assms(1) by simp
  ultimately show ?thesis by linarith
qed

lemma step_size_pos: "1 \<le> step_size nperseg noverlap"
  by (simp add: step_size_def)

lemma segment_count_nonneg: "0 \<le> segment_count n nperseg noverlap"
  by (simp add: segment_count_def Let_def)

lemma only_last_short:
  fixes n L V i :: int
  assumes "0 \<le> V" "V < L" "0 \<le> i" "i + 1 < segment_count n L V"
  shows "i * step_size L V + L \<le> n"
proof -
  let ?s = "L - V"
  have s: "0 < ?s" "step_size L V = ?s" using assms by (simp_all add: step_size_def)
  have "i + 2 \<le> (n - V + ?s - 1) div ?s"
    using assms(3,4) s by (simp add: segment_count_def Let_def max_def split: if_splits)
  then have "(i + 2) * ?s \<le> n - V + ?s - 1" using s(1) by (rule le_div_mult[rotated])
  then have "i * ?s + L \<le> n - 1" by (simp add: algebra_simps)
  then show ?thesis using s by simp
qed

lemma py_floordiv_step:
  "py_floordiv a (step_size nperseg noverlap) = Inr (a div step_size nperseg noverlap)"
  using step_size_pos[of nperseg noverlap] by (simp add: py_floordiv_def)

lemma segment_count_zero_iff:
  "segment_count n nperseg noverlap \<le> 0 \<longleftrightarrow> n \<le> noverlap"
proof -
  let ?s = "step_size nperseg noverlap"
  have s: "0 < ?s" using step_size_pos[of nperseg noverlap] by simp
  have "(n - noverlap + ?s - 1) div ?s \<le> 0 \<longleftrightarrow> n - noverlap + ?s - 1 < ?s"
    using s pos_imp_zdiv_pos_iff[of ?s "n - noverlap + ?s - 1"] by linarith
  then show ?thesis by (auto simp: segment_count_def Let_def)
qed

lemma segment_count_ceiling:
  assumes "noverlap < nperseg"
  shows "segment_count n nperseg noverlap
           = max 0 \<lceil>real_of_int (n - noverlap) / real_of_int (nperseg - noverlap)\<rceil>"
proof -
  have s: "0 < nperseg - noverlap" "step_size nperseg noverlap = nperseg - noverlap"
    using assms by (simp_all add: step_size_def)
  show ?thesis
    using ceil_div[OF s(1), of "n - noverlap"] s(2) by (simp add: segment_count_def Let_def)
qed

subsection \<open>Slices and segments\<close>

lemma py_slice_nonneg:
  "0 \<le> lo \<Longrightarrow> lo \<le> hi \<Longrightarrow> py_slice xs lo hi = take (nat (hi - lo)) (drop (nat lo) xs)"
  unfolding py_slice_def Let_def by (auto simp: min_def)

lemma segment_eq:
  assumes "0 \<le> i" "0 \<le> step" "0 \<le> nperseg"
  shows "segment production nperseg step i =
           take (nat nperseg) (drop (nat (i * step)) production @ replicate (nat nperseg) (Some 0))"
proof -
  have s: "0 \<le> i * step" using assms by simp
  have sl: "py_slice production (i * step) (i * step + nperseg) =
        take (nat nperseg) (drop (nat (i * step)) production)"
    using s assms(3) by (simp add: py_slice_nonneg)
  show ?thesis
    unfolding segment_def Let_def sl
    by (auto simp: min_def not_less nat_diff_distrib nat_le_iff)
qed

lemma segment_length:
  "0 \<le> i \<Longrightarrow> 0 \<le> step \<Longrightarrow> 0 \<le> nperseg \<Longrightarrow>
     length (segment production nperseg step i) = nat nperseg"
  by (simp add: segment_eq)

lemma segment_nth:
  assumes "0 \<le> i" "0 \<le> step" "0 \<le> nperseg" "j < nat nperseg"
  shows "segment production nperseg step i ! j =
     (if nat (i * step) + j < length production then production ! (nat (i * step) + j) else Some 0)"
proof -
  let ?ys = "drop (nat (i * step)) production"
  have "segment production nperseg step i ! j = (?ys @ replicate (nat nperseg) (Some 0)) ! j"
    using assms by (simp only: segment_eq nth_take)
  also have "\<dots> = (if j < length ?ys then ?ys ! j else Some 0)"
    using assms(4) by (simp add: nth_append)
  also have "\<dots> = (if nat (i * step) + j < length production
                      then production ! (nat (i * step) + j) else Some 0)"
    by auto
  finally show ?thesis .
qed

subsection \<open>The segment loop\<close>

lemma stft_loop_eq:
  "0 \<le> i \<Longrightarrow> i \<le> segments \<Longrightarrow>
   stft_loop np production nperseg step window win_norm segments i Sxx =
     (segments,
      Sxx @ map (\<lambda>j. stft_column np window win_norm (segment production nperseg step j))
              [i..segments - 1])"
proof (induction np production nperseg step window win_norm segments i Sxx
       rule: stft_loop.induct)
  case (1 np production nperseg step window win_norm segments i Sxx)
  show ?case
  proof (cases "i < segments")
    case True
    then have u: "[i..segments - 1] = i # [i + 1..segments - 1]"
      by (simp add: upto_rec1)
    from True 1 show ?thesis
      by (simp del: stft_loop.simps add: stft_loop.simps[of _ _ _ _ _ _ _ i] u)
  next
    case False
    with 1 have "i = segments" by simp
    then show ?thesis by simp
  qed
qed

subsection \<open>The sort\<close>

lemma sorts_length:
  "sorts_by_start_time sort_values \<Longrightarrow> length (sort_values df) = length df"
  unfolding sorts_by_start_time_def by (metis size_mset)

lemma stable_sort_values_sorts: "sorts_by_start_time stable_sort_values"
  by (simp add: sorts_by_start_time_def stable_sort_values_def)

lemma length_production:
  "sorts_by_start_time sort_values \<Longrightarrow>
     length (gap_fill (map quantityKwh (sort_values rows))) = length rows"
  by (simp add: length_gap_fill sorts_length)

subsection \<open>The branches of the analysis functions\<close>

lemma stl_analysis_None:
  "stl_analysis None sort_values df price_area production_group period seasonal_arg trend_arg
     robust = Inr (None, Some stl_unavailable_message)"
  by (simp add: stl_analysis_def)

lemma stl_analysis_no_rows:
  "filter_rows df price_area production_group = [] \<Longrightarrow>
   stl_analysis (Some STL_fit) sort_values df price_area production_group period seasonal_arg
     trend_arg robust = Inr (None, Some no_data_message)"
  by (simp add: stl_analysis_def)

lemma stl_analysis_selected:
  assumes "filter_rows df price_area production_group \<noteq> []"
  shows "stl_analysis (Some STL_fit) sort_values df price_area production_group period
           seasonal_arg trend_arg robust =
     (let filtered = sort_values (filter_rows df price_area production_group);
          index = map startTime_parsed filtered;
          ts = zip index (gap_fill (map quantityKwh filtered))
      in case STL_fit ts period seasonal_arg trend_arg robust of
           Inl exn \<Rightarrow> Inl exn
         | Inr result \<Rightarrow>
             Inr (Some (STL_figure
                          (''STL Decomposition: '' @ production_group @ '' in '' @ price_area)
                          index (map snd ts) (trend result) (seasonal result) (resid result)),
                  None))"
  using assms by (simp add: stl_analysis_def Let_def)

lemma spectrogram_analysis_no_rows:
  "filter_rows df price_area production_group = [] \<Longrightarrow>
   spectrogram_analysis signal np sort_values df price_area production_group window_length
     window_overlap = Inr (None, Some no_data_message)"
  by (simp add: spectrogram_analysis_def)

lemma spectrogram_analysis_fallback:
  assumes "filter_rows df price_area production_group \<noteq> []"
  shows "spectrogram_analysis None np sort_values df price_area production_group window_length
           window_overlap =
     (case stft_fallback np
             (gap_fill (map quantityKwh (sort_values (filter_rows df price_area production_group))))
             window_length window_overlap of
        Raises exn \<Rightarrow> Inl exn
      | Returns_message message \<Rightarrow> Inr (None, Some message)
      | Returns_arrays frequencies times_arr Sxx \<Rightarrow>
          Inr (Some (spectrogram_figure price_area production_group
                       window_length window_overlap frequencies times_arr Sxx), None))"
  using assms by (simp add: spectrogram_analysis_def Let_def)

lemma spectrogram_analysis_primary:
  assumes "filter_rows df price_area production_group \<noteq> []"
  shows "spectrogram_analysis (Some spectrogram) np sort_values df price_area production_group
           window_length window_overlap =
     (case spectrogram
             (gap_fill (map quantityKwh (sort_values (filter_rows df price_area production_group))))
             window_length window_overlap of
        Inl exn \<Rightarrow> Inl exn
      | Inr (frequencies, times_arr, Sxx) \<Rightarrow>
          Inr (Some (spectrogram_figure price_area production_group
                       window_length window_overlap frequencies times_arr Sxx), None))"
  using assms by (simp add: spectrogram_analysis_def Let_def)

lemma stft_fallback_invalid:
  "window_length \<le> 0 \<Longrightarrow>
     stft_fallback np production window_length window_overlap
       = Returns_message invalid_window_message"
  by (simp add: stft_fallback_def Let_def)

lemma stft_fallback_not_enough:
  "production \<noteq> [] \<Longrightarrow> 1 \<le> window_length \<Longrightarrow> int (length production) \<le> window_overlap \<Longrightarrow>
     stft_fallback np production window_length window_overlap
       = Returns_message not_enough_data_message"
  using segment_count_zero_iff[of "int (length production)" window_length window_overlap]
  by (simp add: stft_fallback_def Let_def py_floordiv_step segment_count_def)

lemma stft_fallback_overflow:
  "production \<noteq> [] \<Longrightarrow> 1 \<le> window_length \<Longrightarrow> window_overlap < int (length production) \<Longrightarrow>
   int64_max < step_size window_length window_overlap \<Longrightarrow>
     stft_fallback np production window_length window_overlap
       = Raises ''OverflowError: Python integer out of bounds for int64''"
  using segment_count_zero_iff[of "int (length production)" window_length window_overlap]
  by (simp add: stft_fallback_def Let_def py_floordiv_step segment_count_def)

lemma stft_fallback_arrays:
  assumes "production \<noteq> []" and "1 \<le> window_length"
    and "window_overlap < int (length production)"
    and "step_size window_length window_overlap \<le> int64_max"
  shows "stft_fallback np production window_length window_overlap =
     Returns_arrays (rfftfreq np window_length)
       (map (\<lambda>i. Some (real_of_int (i * step_size window_length window_overlap)))
          [0..segment_count (int (length production)) window_length window_overlap - 1])
       (map (\<lambda>i. stft_column np (hanning np window_length)
                   (fl_sum (map (\<lambda>w. fl_mul w w) (hanning np window_length)))
                   (segment production window_length
                      (step_size window_length window_overlap) i))
          [0..segment_count (int (length production)) window_length window_overlap - 1])"
proof -
  let ?c = "segment_count (int (length production)) window_length window_overlap"
  have c: "0 < ?c"
    using segment_count_zero_iff[of "int (length production)" window_length window_overlap]
      assms(3) by simp
  have q: "max 0 ((int (length production) - window_overlap
                    + step_size window_length window_overlap - 1)
                   div step_size window_length window_overlap) = ?c"
    by (simp add: segment_count_def Let_def)
  have loop: "stft_loop np production window_length (step_size window_length window_overlap)
                 w wn ?c 0 [] =
               (?c, map (\<lambda>j. stft_column np w wn
                           (segment production window_length
                              (step_size window_length window_overlap) j)) [0..?c - 1])"
    for w wn
    using stft_loop_eq[of 0 ?c np production window_length
        "step_size window_length window_overlap" w wn "[]"] c
    by simp
  show ?thesis
    using assms c
    by (simp add: stft_fallback_def Let_def py_floordiv_step q loop del: stft_loop.simps)
qed

subsection \<open>The examples\<close>

lemma hourly_rows_11:
  "filter_rows (hourly_df 11) ''NO1'' ''hydro'' \<noteq> []"
  by (simp add: hourly_df_def filter_rows_def upto_rec1)

lemma hourly_production_11:
  "gap_fill (map quantityKwh (stable_sort_values (filter_rows (hourly_df 11) ''NO1'' ''hydro'')))
     = example_series"
  by (simp add: hourly_df_def filter_rows_def stable_sort_values_def gap_fill_def ffill_def
      example_series_def upto_rec1)

lemma hourly_rows_10:
  "filter_rows (hourly_df 10) ''NO1'' ''hydro'' \<noteq> []"
  by (simp add: hourly_df_def filter_rows_def upto_rec1)

lemma hourly_production_10:
  "gap_fill (map quantityKwh (stable_sort_values (filter_rows (hourly_df 10) ''NO1'' ''hydro'')))
     = butlast example_series"
  by (simp add: hourly_df_def filter_rows_def stable_sort_values_def gap_fill_def ffill_def
      example_series_def upto_rec1)

lemma example_rows:
  "filter_rows example_df ''NO1'' ''hydro'' \<noteq> []"
  "int (length (filter_rows example_df ''NO1'' ''hydro'')) = 3"
  by (simp_all add: example_df_def filter_rows_def)

lemma example_production:
  "gap_fill (map quantityKwh (stable_sort_values (filter_rows example_df ''NO1'' ''hydro'')))
     = [Some 5, Some 5, Some 7]"
  by (simp add: example_df_def filter_rows_def stable_sort_values_def gap_fill_def ffill_def)

lemma scipy_spectrogram_example:
  "scipy_spectrogram example_series 4 2 =
     Inr (np_rfftfreq 4, [Some 2, Some 4, Some 6, Some 8],
          map (\<lambda>i. scipy_column (scipy_hann 4) (take 4 (drop (nat (i * 2)) example_series)))
            [0..3])"
  by (simp add: scipy_spectrogram_def Let_def example_series_def upto_rec1)

lemma fallback_example:
  "stft_fallback np example_series 4 2 =
     Returns_arrays (rfftfreq np 4) [Some 0, Some 2, Some 4, Some 6, Some 8]
       (map (\<lambda>i. stft_column np (hanning np 4)
                   (fl_sum (map (\<lambda>w. fl_mul w w) (hanning np 4)))
                   (segment example_series 4 2 i)) [0..4])"
proof -
  have l: "int (length example_series) = 11" by (simp add: example_series_def)
  have s: "step_size 4 2 = 2" by (simp add: step_size_def)
  have c: "segment_count 11 4 2 = 5" by (simp add: segment_count_def step_size_def)
  have ne: "example_series \<noteq> []" by (simp add: example_series_def)
  show ?thesis
    using stft_fallback_arrays[OF ne, of 4 2 np]
    by (simp add: l s c int64_max_def upto_rec1)
qed

section \<open>Fallback and primary path\<close>

text \<open>
  Claim C1. The fallback is to give the time bins, the frequency bins and the matrix
  that the primary path gives. It does not: on the eleven hourly samples, with a
  window of 4 and an overlap of 2, the fallback (with any NumPy) returns the five time
  bins 0, 2, 4, 6, 8, counted from the start of each segment, and five columns, the
  last from a zero-padded segment; the primary path returns the four time bins
  2, 4, 6, 8, the centres of the four full segments, and four columns.
\<close>

theorem fallback_time_bins_differ_from_primary:
  "time_bins (spectrogram_analysis None np stable_sort_values (hourly_df 11)
                ''NO1'' ''hydro'' 4 2)
     = [Some 0, Some 2, Some 4, Some 6, Some 8]
   \<and> time_bins (spectrogram_analysis (Some scipy_spectrogram) np stable_sort_values (hourly_df 11)
                  ''NO1'' ''hydro'' 4 2)
     = [Some 2, Some 4, Some 6, Some 8]
   \<and> length (power_columns (spectrogram_analysis None np stable_sort_values (hourly_df 11)
                               ''NO1'' ''hydro'' 4 2)) = 5
   \<and> length (power_columns (spectrogram_analysis (Some scipy_spectrogram) np stable_sort_values
                               (hourly_df 11) ''NO1'' ''hydro'' 4 2)) = 4"
  by (simp add: spectrogram_analysis_fallback[OF hourly_rows_11]
      spectrogram_analysis_primary[OF hourly_rows_11] hourly_production_11
      fallback_example scipy_spectrogram_example spectrogram_figure_def Let_def upto_rec1)

section \<open>Segment count and segment contents\<close>

text \<open>
  Claim C4, as amended. In the NumPy fallback, for a selection of \<open>N\<close> rows, a window \<open>L\<close>
  and an overlap \<open>V\<close> with \<open>0 \<le> V < L\<close> and a step \<open>L - V\<close> that fits 64 bits, the number
  of segments is \<open>max(0, ceil((N - V) / (L - V)))\<close>: with no segment the function returns
  the message about too little data, otherwise the figure has one time bin \<open>i * step\<close>
  and one column per segment. Segment \<open>i\<close> has length \<open>L\<close> and holds the samples
  \<open>i * step, ..., i * step + L - 1\<close> of the series, with zeros at the positions beyond its
  end; only the last segment can reach beyond the end. For \<open>N = 10\<close>, \<open>L = 4\<close>, \<open>V = 2\<close>
  there are 4 segments.
\<close>

theorem fallback_segments_produced:
  assumes "sorts_by_start_time sort_values"
    and "filter_rows df price_area production_group \<noteq> []"
    and "production =
           gap_fill (map quantityKwh (sort_values (filter_rows df price_area production_group)))"
    and "N = int (length production)"
    and "0 \<le> V" and "V < L" and "L - V \<le> int64_max"
    and "segments = max 0 \<lceil>real_of_int (N - V) / real_of_int (L - V)\<rceil>"
  shows "N = int (length (filter_rows df price_area production_group))
       \<and> spectrogram_analysis None np sort_values df price_area production_group L V =
           (if segments = 0
            then Inr (None, Some ''Not enough data for selected window/overlap settings'')
            else Inr (Some (Spectrogram_figure (production_group, price_area, L, V)
                        (map (\<lambda>i. Some (real_of_int (i * (L - V)))) [0..segments - 1])
                        (rfftfreq np L)
                        (map (\<lambda>i. map to_db
                                    (stft_column np (hanning np L)
                                       (fl_sum (map (\<lambda>w. fl_mul w w) (hanning np L)))
                                       (segment production L (L - V) i)))
                           [0..segments - 1])),
                      None))
       \<and> (\<forall>i. 0 \<le> i \<and> i < segments \<longrightarrow>
            length (segment production L (L - V) i) = nat L
          \<and> (\<forall>j. j < nat L \<longrightarrow>
                segment production L (L - V) i ! j =
                  (if nat (i * (L - V)) + j < length production
                   then production ! (nat (i * (L - V)) + j) else Some 0))
          \<and> (i + 1 < segments \<longrightarrow> i * (L - V) + L \<le> N))"
proof -
  have s: "step_size L V = L - V" "0 \<le> L - V" "0 \<le> L" "1 \<le> L"
    using assms(5,6) by (simp_all add: step_size_def)
  have c: "segment_count N L V = segments"
    using segment_count_ceiling[OF assms(6), of N] assms(8) by simp
  have len: "N = int (length (filter_rows df price_area production_group))"
    using assms(3,4) length_production[OF assms(1)] by simp
  then have ne: "production \<noteq> []" using assms(2,4) by auto
  note fb = spectrogram_analysis_fallback[OF assms(2), of np sort_values L V,
      folded assms(3)]
  have none: "spectrogram_analysis None np sort_values df price_area production_group L V
                = Inr (None, Some ''Not enough data for selected window/overlap settings'')"
    if "segments = 0"
  proof -
    have "N \<le> V" using segment_count_zero_iff[of N L V] c that by simp
    then show ?thesis
      using fb stft_fallback_not_enough[OF ne s(4), of V np] assms(4)
      by (simp add: not_enough_data_message_def)
  qed
  have some: "spectrogram_analysis None np sort_values df price_area production_group L V =
            Inr (Some (Spectrogram_figure (production_group, price_area, L, V)
                        (map (\<lambda>i. Some (real_of_int (i * (L - V)))) [0..segments - 1])
                        (rfftfreq np L)
                        (map (\<lambda>i. map to_db
                                    (stft_column np (hanning np L)
                                       (fl_sum (map (\<lambda>w. fl_mul w w) (hanning np L)))
                                       (segment production L (L - V) i)))
                           [0..segments - 1])),
                      None)"
    if "segments \<noteq> 0"
  proof -
    have "\<not> N \<le> V" using segment_count_zero_iff[of N L V] c that
      segment_count_nonneg[of N L V] by auto
    then have "V < int (length production)" using assms(4) by simp
    from stft_fallback_arrays[OF ne s(4) this, of np] assms(7) s(1)
    show ?thesis
      using fb c assms(4) by (simp add: spectrogram_figure_def Let_def comp_def)
  qed
  have segs: "length (segment production L (L - V) i) = nat L
          \<and> (\<forall>j. j < nat L \<longrightarrow>
                segment production L (L - V) i ! j =
                  (if nat (i * (L - V)) + j < length production
                   then production ! (nat (i * (L - V)) + j) else Some 0))
          \<and> (i + 1 < segments \<longrightarrow> i * (L - V) + L \<le> N)"
    if "0 \<le> i" for i
    using that s(2,3) only_last_short[OF assms(5,6) that, of N] c s(1)
    by (simp add: segment_length segment_nth)
  show ?thesis using len none some segs by auto
qed

theorem fallback_segments_produced_witness:
  "sorts_by_start_time stable_sort_values
   \<and> filter_rows (hourly_df 10) ''NO1'' ''hydro'' \<noteq> []
   \<and> (0::int) \<le> 2 \<and> (2::int) < 4 \<and> (4::int) - 2 \<le> int64_max
   \<and> max 0 \<lceil>real_of_int (10 - 2) / real_of_int (4 - 2)\<rceil> = 4
   \<and> time_bins (spectrogram_analysis None np_reference stable_sort_values (hourly_df 10)
                  ''NO1'' ''hydro'' 4 2) = [Some 0, Some 2, Some 4, Some 6]
   \<and> length (power_columns (spectrogram_analysis None np_reference stable_sort_values
                               (hourly_df 10) ''NO1'' ''hydro'' 4 2)) = 4
   \<and> segment (butlast example_series) 4 (4 - 2) 3 ! 3 = Some 9"
proof -
  have h5: "(0::int) \<le> 2" and h6: "(2::int) < 4" and h7: "(4::int) - 2 \<le> int64_max"
    by (simp_all add: int64_max_def)
  have h3: "butlast example_series =
      gap_fill (map quantityKwh (stable_sort_values (filter_rows (hourly_df 10) ''NO1'' ''hydro'')))"
    by (simp add: hourly_production_10)
  have h4: "10 = int (length (butlast example_series))"
    by (simp add: example_series_def)
  have h8: "(4::int) = max 0 \<lceil>real_of_int (10 - 2) / real_of_int (4 - 2)\<rceil>"
    by simp
  note T = fallback_segments_produced[OF stable_sort_values_sorts hourly_rows_10 h3 h4 h5 h6 h7 h8,
      of np_reference]
  have t: "time_bins (spectrogram_analysis None np_reference stable_sort_values (hourly_df 10)
                  ''NO1'' ''hydro'' 4 2) = [Some 0, Some 2, Some 4, Some 6]"
    and l: "length (power_columns (spectrogram_analysis None np_reference stable_sort_values
                               (hourly_df 10) ''NO1'' ''hydro'' 4 2)) = 4"
    using T[THEN conjunct2, THEN conjunct1] by (simp_all add: upto_rec1)
  have n: "segment (butlast example_series) 4 (4 - 2) 3 ! 3 = Some 9"
    using T[THEN conjunct2, THEN conjunct2, rule_format, of 3, THEN conjunct2, THEN conjunct1,
        rule_format, of 3]
    by (simp add: example_series_def)
  show ?thesis
    using stable_sort_values_sorts hourly_rows_10 h5 h6 h7 h8 t l n by simp
qed

text \<open>
  The claim as stated fails on the primary path: for 11 samples, a window of 4 and an
  overlap of 2 the formula gives 5 segments and the primary path returns 4 columns.
\<close>

theorem primary_segment_count_counterexample:
  "(0::int) \<le> 2 \<and> (2::int) < 4
   \<and> int (length (filter_rows (hourly_df 11) ''NO1'' ''hydro'')) = 11
   \<and> int (length (power_columns (spectrogram_analysis (Some scipy_spectrogram) np_reference
                                    stable_sort_values (hourly_df 11) ''NO1'' ''hydro'' 4 2)))
       \<noteq> max 0 \<lceil>real_of_int (11 - 2) / real_of_int (4 - 2)\<rceil>"
proof -
  have "int (length (filter_rows (hourly_df 11) ''NO1'' ''hydro'')) = 11"
    by (simp add: hourly_df_def filter_rows_def upto_rec1)
  moreover have "length (power_columns (spectrogram_analysis (Some scipy_spectrogram) np_reference
                                    stable_sort_values (hourly_df 11) ''NO1'' ''hydro'' 4 2)) = 4"
    by (simp add: spectrogram_analysis_primary[OF hourly_rows_11] hourly_production_11
      scipy_spectrogram_example spectrogram_figure_def Let_def upto_rec1)
  moreover have "\<lceil>real_of_int (11 - 2) / real_of_int (4 - 2)\<rceil> = (5::int)"
    by (simp add: ceiling_eq_iff)
  ultimately show ?thesis by simp
qed

section \<open>The clamped step\<close>

text \<open>
  Claim C10. The step of the fallback is \<open>window_length - window_overlap\<close> when that is
  positive and 1 otherwise, so it is at least 1 and the division by it never raises.
  The segment count is never negative, and the loop runs from 0, stops at the index
  \<open>segments\<close> and writes exactly the columns of the segments \<open>0, ..., segments - 1\<close>. For
  a non-empty series and a window of at least 1 the fallback returns the message about
  too little data when the series is not longer than the overlap, raises when the
  step does not fit 64 bits, and otherwise returns \<open>segments\<close> time bins and the
  \<open>segments\<close> columns of the loop. When the overlap is not below the window, the step
  is 1, fits, and the count is \<open>max(0, n - window_overlap)\<close>.
\<close>

theorem fallback_step_clamped:
  "step_size L V = (if V < L then L - V else 1)
   \<and> 1 \<le> step_size L V
   \<and> py_floordiv a (step_size L V) = Inr (a div step_size L V)
   \<and> 0 \<le> segment_count n L V
   \<and> stft_loop np production L (step_size L V) window win_norm (segment_count n L V) 0 [] =
       (segment_count n L V,
        map (\<lambda>i. stft_column np window win_norm (segment production L (step_size L V) i))
          [0..segment_count n L V - 1])
   \<and> (production \<noteq> [] \<and> 1 \<le> L \<longrightarrow>
        stft_fallback np production L V =
          (if int (length production) \<le> V then Returns_message not_enough_data_message
           else if int64_max < step_size L V
           then Raises ''OverflowError: Python integer out of bounds for int64''
           else Returns_arrays (rfftfreq np L)
                  (map (\<lambda>i. Some (real_of_int (i * step_size L V)))
                     [0..segment_count (int (length production)) L V - 1])
                  (map (\<lambda>i. stft_column np (hanning np L)
                              (fl_sum (map (\<lambda>w. fl_mul w w) (hanning np L)))
                              (segment production L (step_size L V) i))
                     [0..segment_count (int (length production)) L V - 1])))
   \<and> (L \<le> V \<longrightarrow> segment_count n L V = max 0 (n - V) \<and> step_size L V \<le> int64_max)"
proof -
  have a: "step_size L V = (if V < L then L - V else 1)"
    by (simp add: step_size_def)
  have loop: "stft_loop np production L (step_size L V) window win_norm (segment_count n L V) 0 [] =
       (segment_count n L V,
        map (\<lambda>i. stft_column np window win_norm (segment production L (step_size L V) i))
          [0..segment_count n L V - 1])"
    using stft_loop_eq[of 0 "segment_count n L V" np production L "step_size L V" window
        win_norm "[]"] segment_count_nonneg[of n L V]
    by simp
  have fb: "stft_fallback np production L V =
          (if int (length production) \<le> V then Returns_message not_enough_data_message
           else if int64_max < step_size L V
           then Raises ''OverflowError: Python integer out of bounds for int64''
           else Returns_arrays (rfftfreq np L)
                  (map (\<lambda>i. Some (real_of_int (i * step_size L V)))
                     [0..segment_count (int (length production)) L V - 1])
                  (map (\<lambda>i. stft_column np (hanning np L)
                              (fl_sum (map (\<lambda>w. fl_mul w w) (hanning np L)))
                              (segment production L (step_size L V) i))
                     [0..segment_count (int (length production)) L V - 1]))"
    if "production \<noteq> []" "1 \<le> L"
    using stft_fallback_not_enough[OF that, of V np] stft_fallback_overflow[OF that, of V np]
      stft_fallback_arrays[OF that, of V np]
    by (simp add: not_less)
  have big: "segment_count n L V = max 0 (n - V) \<and> step_size L V \<le> int64_max" if "L \<le> V"
    using that by (simp add: segment_count_def step_size_def int64_max_def)
  show ?thesis
    using a step_size_pos[of L V] py_floordiv_step[of a L V] segment_count_nonneg[of n L V]
      loop fb big
    by (simp del: stft_loop.simps)
qed

theorem fallback_step_clamped_witness:
  "example_series \<noteq> [] \<and> (1::int) \<le> 4 \<and> (4::int) \<le> 6
   \<and> step_size 4 6 = 1
   \<and> segment_count 11 4 6 = 5
   \<and> stft_fallback np_reference example_series 4 6 =
       Returns_arrays (rfftfreq np_reference 4) [Some 0, Some 1, Some 2, Some 3, Some 4]
         (map (\<lambda>i. stft_column np_reference (hanning np_reference 4)
                     (fl_sum (map (\<lambda>w. fl_mul w w) (hanning np_reference 4)))
                     (segment example_series 4 1 i)) [0..4])"
proof -
  have ne: "example_series \<noteq> []" and l: "int (length example_series) = 11"
    by (simp_all add: example_series_def)
  note T = fallback_step_clamped[of 4 6 0 11 np_reference example_series "[]" None]
  have s: "step_size 4 6 = 1" using T[THEN conjunct1] by simp
  have c: "segment_count 11 4 6 = 5"
    using T[THEN conjunct2, THEN conjunct2, THEN conjunct2, THEN conjunct2, THEN conjunct2,
        THEN conjunct2] by simp
  have "stft_fallback np_reference example_series 4 6 =
       Returns_arrays (rfftfreq np_reference 4) [Some 0, Some 1, Some 2, Some 3, Some 4]
         (map (\<lambda>i. stft_column np_reference (hanning np_reference 4)
                     (fl_sum (map (\<lambda>w. fl_mul w w) (hanning np_reference 4)))
                     (segment example_series 4 1 i)) [0..4])"
    using T[THEN conjunct2, THEN conjunct2, THEN conjunct2, THEN conjunct2, THEN conjunct2,
        THEN conjunct1] ne
    by (simp add: l s c int64_max_def upto_rec1)
  then show ?thesis using ne s c by simp
qed

section \<open>Degenerate window settings\<close>

text \<open>
  Claim C5. A window length of 0 is to give the message "Invalid window settings for
  spectrogram", and a series shorter than \<open>window_length - window_overlap\<close> the message
  "Not enough data for selected window/overlap settings". The code does neither
  throughout. In the fallback, three samples with a window of 10 and an overlap of 2
  hold no full segment (which the comment of line 182 asks for), yet a figure is
  returned. The fallback rejects a window of 0 with the message; the primary path has
  no such check, returns that message for no primitive, and with SciPy raises.
\<close>

theorem degenerate_window_not_rejected:
  "int (length (filter_rows example_df ''NO1'' ''hydro'')) < 10 - 2
   \<and> figure_of (spectrogram_analysis None np stable_sort_values example_df ''NO1'' ''hydro'' 10 2)
       \<noteq> None
   \<and> spectrogram_analysis None np stable_sort_values example_df ''NO1'' ''hydro'' 10 2
       \<noteq> Inr (None, Some ''Not enough data for selected window/overlap settings'')
   \<and> spectrogram_analysis None np stable_sort_values example_df ''NO1'' ''hydro'' 0 0
       = Inr (None, Some ''Invalid window settings for spectrogram'')
   \<and> spectrogram_analysis (Some scipy_spectrogram) np stable_sort_values example_df
         ''NO1'' ''hydro'' 0 0
       = Inl ''ValueError: nperseg must be a positive integer''
   \<and> spectrogram_analysis (Some spectrogram) np stable_sort_values example_df
         ''NO1'' ''hydro'' 0 0
       \<noteq> Inr (None, Some ''Invalid window settings for spectrogram'')"
proof -
  let ?production = "[Some 5, Some 5, Some (7::real)]"
  have fb: "\<exists>f t S. stft_fallback np ?production 10 2 = Returns_arrays f t S"
    using stft_fallback_arrays[of ?production 10 2 np]
    by (simp add: step_size_def int64_max_def)
  have a: "figure_of (spectrogram_analysis None np stable_sort_values example_df
                        ''NO1'' ''hydro'' 10 2) \<noteq> None"
    and b: "spectrogram_analysis None np stable_sort_values example_df ''NO1'' ''hydro'' 10 2
       \<noteq> Inr (None, Some ''Not enough data for selected window/overlap settings'')"
    using fb
    by (auto simp: spectrogram_analysis_fallback[OF example_rows(1)] example_production)
  have c: "spectrogram_analysis None np stable_sort_values example_df ''NO1'' ''hydro'' 0 0
       = Inr (None, Some ''Invalid window settings for spectrogram'')"
    by (simp add: spectrogram_analysis_fallback[OF example_rows(1)] stft_fallback_invalid
        invalid_window_message_def)
  have d: "spectrogram_analysis (Some scipy_spectrogram) np stable_sort_values example_df
         ''NO1'' ''hydro'' 0 0
       = Inl ''ValueError: nperseg must be a positive integer''"
    by (simp add: spectrogram_analysis_primary[OF example_rows(1)] example_production
        scipy_spectrogram_def)
  have e: "spectrogram_analysis (Some spectrogram) np stable_sort_values example_df
         ''NO1'' ''hydro'' 0 0
       \<noteq> Inr (None, Some ''Invalid window settings for spectrogram'')"
    by (simp add: spectrogram_analysis_primary[OF example_rows(1)] split: sum.splits prod.splits)
  show ?thesis using a b c d e example_rows(2) by simp
qed

section \<open>Gap filling in the selector stage\<close>



section \<open>Empty selection\<close>

text \<open>
  Claim C6, as amended. When no row matches the pair of keys, \<open>spectrogram_analysis\<close>
  (on either path) and \<open>stl_analysis\<close> with statsmodels' STL imported return no figure and
  exactly the message "No data available for selected combination", and no exception
  leaves them.
\<close>

theorem no_data_failure:
  assumes "filter_rows df price_area production_group = []"
  shows "spectrogram_analysis signal np sort_values df price_area production_group
           window_length window_overlap
           = Inr (None, Some ''No data available for selected combination'')
       \<and> stl_analysis (Some STL_fit) sort_values df price_area production_group period
           seasonal_arg trend_arg robust
           = Inr (None, Some ''No data available for selected combination'')"
  using spectrogram_analysis_no_rows[OF assms] stl_analysis_no_rows[OF assms]
  by (simp add: no_data_message_def)

theorem no_data_failure_witness:
  "filter_rows example_df ''nonexistent_area'' ''nonexistent_group'' = []
   \<and> spectrogram_analysis None np_reference stable_sort_values example_df
        ''nonexistent_area'' ''nonexistent_group'' 168 84
        = Inr (None, Some ''No data available for selected combination'')
   \<and> stl_analysis (Some STL_requiring_odd) stable_sort_values example_df
        ''nonexistent_area'' ''nonexistent_group'' 24 7 None False
        = Inr (None, Some ''No data available for selected combination'')"
proof -
  have h: "filter_rows example_df ''nonexistent_area'' ''nonexistent_group'' = []"
    by (simp add: example_df_def filter_rows_def)
  show ?thesis using h no_data_failure[OF h] by simp
qed

text \<open>
  The claim as stated fails for \<open>stl_analysis\<close> when STL is not imported: the message is
  then the one about statsmodels.
\<close>

theorem stl_no_data_counterexample:
  "filter_rows example_df ''nonexistent_area'' ''nonexistent_group'' = []
   \<and> stl_analysis None stable_sort_values example_df ''nonexistent_area'' ''nonexistent_group''
        24 7 None False
        \<noteq> Inr (None, Some ''No data available for selected combination'')"
  by (simp add: example_df_def filter_rows_def stl_analysis_def stl_unavailable_message_def)

section \<open>Library unavailable\<close>

text \<open>
  Claim C8. When statsmodels' STL could not be imported, \<open>stl_analysis\<close> returns no figure
  and exactly the message "STL decomposition is unavailable because statsmodels could
  not be imported; please install statsmodels in your environment (e.g. pip install
  statsmodels)".
\<close>

theorem stl_analysis_library_unavailable:
  "stl_analysis None sort_values df price_area production_group period seasonal_arg trend_arg
     robust =
     Inr (None,
          Some ''STL decomposition is unavailable because statsmodels could not be imported; please install statsmodels in your environment (e.g. pip install statsmodels)'')"
  by (simp add: stl_analysis_def stl_unavailable_message_def)

text \<open>
  Claim C9. \<open>stl_analysis\<close> tests the availability of STL before it filters: without STL
  the message about statsmodels is returned for every input. For a selection of no
  rows, where the function with STL returns the no-data message, the function without
  STL does not.
\<close>

theorem stl_unavailable_precedes_no_data:
  "stl_analysis None sort_values df price_area production_group period seasonal_arg trend_arg
     robust
     = Inr (None, Some stl_unavailable_message)
   \<and> (filter_rows df price_area production_group = [] \<longrightarrow>
        stl_analysis (Some STL_fit) sort_values df price_area production_group period
          seasonal_arg trend_arg robust
          = Inr (None, Some no_data_message)
      \<and> stl_analysis None sort_values df price_area production_group period seasonal_arg
          trend_arg robust
          \<noteq> Inr (None, Some no_data_message))"
  by (simp add: stl_analysis_None stl_analysis_no_rows stl_unavailable_message_def no_data_message_def)

theorem stl_unavailable_precedes_no_data_witness:
  "filter_rows example_df ''nonexistent_area'' ''nonexistent_group'' = []
   \<and> stl_analysis None stable_sort_values example_df ''nonexistent_area'' ''nonexistent_group''
       24 7 None False
       = Inr (None, Some stl_unavailable_message)
   \<and> stl_analysis None stable_sort_values example_df ''nonexistent_area'' ''nonexistent_group''
       24 7 None False
       \<noteq> Inr (None, Some no_data_message)"
proof -
  have h: "filter_rows example_df ''nonexistent_area'' ''nonexistent_group'' = []"
    by (simp add: example_df_def filter_rows_def)
  show ?thesis
    using h stl_unavailable_precedes_no_data[of stable_sort_values example_df
        "''nonexistent_area''" "''nonexistent_group''" 24 7 None False STL_requiring_odd]
    by (simp add: stl_unavailable_message_def no_data_message_def)
qed

section \<open>Even seasonal windows\<close>

text \<open>
  Claim C2, as amended. \<open>stl_analysis\<close> hands the seasonal window it is given to the STL
  primitive as it is, an even \<open>w\<close> as \<open>w\<close> and not as \<open>w + 1\<close>. The increment is a guard of
  the page script (lines 249-251): it turns an even value \<open>w\<close> into \<open>w + 1\<close> and leaves an
  odd value alone. The slider of the page offers the odd values 3, 5, ..., 25 only, so
  every call that the page makes carries the slider's value, unchanged by the guard.
\<close>

theorem stl_analysis_seasonal_unchanged:
  assumes "filter_rows df price_area production_group \<noteq> []"
  shows "stl_analysis (Some STL_fit) sort_values df price_area production_group period w
           trend_arg robust =
           (let filtered = sort_values (filter_rows df price_area production_group);
                index = map startTime_parsed filtered;
                ts = zip index (gap_fill (map quantityKwh filtered))
            in case STL_fit ts period w trend_arg robust of
                 Inl exn \<Rightarrow> Inl exn
               | Inr result \<Rightarrow>
                   Inr (Some (STL_figure
                                (''STL Decomposition: '' @ production_group @ '' in '' @ price_area)
                                index (map snd ts) (trend result) (seasonal result)
                                (resid result)),
                        None))
       \<and> stl_seasonal_guard (2 * m) = 2 * m + 1
       \<and> stl_seasonal_guard (2 * m + 1) = 2 * m + 1
       \<and> stl_seasonal_slider k mod 2 = 1
       \<and> 3 \<le> stl_seasonal_slider k \<and> stl_seasonal_slider k \<le> 25
       \<and> stl_tab STL sort_values df price_area production_group period k robust =
           page_display (stl_analysis STL sort_values df price_area production_group period
                           (stl_seasonal_slider k) None robust)"
proof -
  have odd: "stl_seasonal_slider k mod 2 = 1"
    by (simp add: stl_seasonal_slider_def)
  have g: "stl_seasonal_guard (stl_seasonal_slider k) = stl_seasonal_slider k"
    using odd by (simp add: stl_seasonal_guard_def)
  have g1: "stl_seasonal_guard (2 * m) = 2 * m + 1"
    and g2: "stl_seasonal_guard (2 * m + 1) = 2 * m + 1"
    by (simp_all add: stl_seasonal_guard_def)
  have r: "3 \<le> stl_seasonal_slider k \<and> stl_seasonal_slider k \<le> 25"
    by (simp add: stl_seasonal_slider_def)
  show ?thesis
    using stl_analysis_selected[OF assms, of STL_fit sort_values period w trend_arg robust]
      odd g g1 g2 r
    by (simp add: stl_tab_def Let_def)
qed

theorem stl_analysis_seasonal_unchanged_witness:
  "filter_rows example_df ''NO1'' ''hydro'' \<noteq> []
   \<and> stl_analysis (Some STL_requiring_odd) stable_sort_values example_df ''NO1'' ''hydro''
         24 4 None True
       = Inl ''ValueError: seasonal must be an odd positive integer >= 3''
   \<and> stl_seasonal_guard 4 = 5
   \<and> stl_seasonal_slider 2 = 7
   \<and> stl_tab (Some STL_requiring_odd) stable_sort_values example_df ''NO1'' ''hydro'' 24 2 True
       = page_display (stl_analysis (Some STL_requiring_odd) stable_sort_values example_df
                         ''NO1'' ''hydro'' 24 7 None True)"
proof -
  note T = stl_analysis_seasonal_unchanged[OF example_rows(1), of STL_requiring_odd
      stable_sort_values 24 4 None True 2 2 "Some STL_requiring_odd"]
  have a: "stl_analysis (Some STL_requiring_odd) stable_sort_values example_df ''NO1'' ''hydro''
         24 4 None True
       = Inl ''ValueError: seasonal must be an odd positive integer >= 3''"
    using T[THEN conjunct1] by (simp add: Let_def STL_requiring_odd_def)
  have b: "stl_seasonal_guard 4 = 5"
    using T[THEN conjunct2, THEN conjunct1] by simp
  have c: "stl_seasonal_slider 2 = 7" by (simp add: stl_seasonal_slider_def)
  show ?thesis
    using example_rows(1) a b c T by simp
qed

text \<open>
  The claim as stated fails: with a primitive that rejects an even window, the call of
  \<open>stl_analysis\<close> with 4 raises and the call with 5 returns a figure.
\<close>

theorem stl_analysis_even_seasonal_counterexample:
  "(4::int) mod 2 = 0
   \<and> stl_analysis (Some STL_requiring_odd) stable_sort_values example_df ''NO1'' ''hydro''
         24 4 None False
       \<noteq> stl_analysis (Some STL_requiring_odd) stable_sort_values example_df ''NO1'' ''hydro''
           24 (4 + 1) None False"
  by (simp add: stl_analysis_selected[OF example_rows(1)] Let_def STL_requiring_odd_def)

end
